theory Spec2Isabelle
  imports Main "HOL-Library.Char_ord" "HOL-Library.List_Lexorder"
begin

section \<open>Python values and exceptions\<close>

text \<open>
  A Python \<open>str\<close> is a \<open>string\<close> (a list of bytes, UTF-8), an \<open>int\<close> is an \<open>int\<close>.
  What \<open>json.load\<close> returns is a value of \<open>pyval\<close>; a \<open>dict\<close> is an association list
  in insertion order whose lookups take the first binding of a key.  A float is
  carried by its text and never inspected.
\<close>

datatype pyval =
    JNull
  | JBool bool
  | JInt int
  | JFloat string
  | JStr string
  | JList "pyval list"
  | JDict "(string \<times> pyval) list"

text \<open>An exception is its class together with the text \<open>str(e)\<close>.\<close>

datatype exn_class =
    TypeError | KeyError | JSONDecodeError
  | FileNotFoundError | FileExistsError | NotADirectoryError | IsADirectoryError
  | OSError | PlainException

datatype exn = Raise exn_class string

fun str_exn :: "exn \<Rightarrow> string" where
  "str_exn (Raise c msg) = msg"

fun exn_class_of :: "exn \<Rightarrow> exn_class" where
  "exn_class_of (Raise c msg) = c"

section \<open>Entity model (models.py)\<close>

record Mod =
  name :: string
  filename :: string
  path :: string
  size :: int
  enabled :: bool

record Instance =
  name :: string
  mods :: "Mod list"
  created :: string

record AppState =
  active_instance :: "string option"
  steam_path :: "string option"

text \<open>
  The dataclasses do not validate their fields: \<open>Mod(**data)\<close> stores whatever the
  document holds.  The records above are typed by the annotations of the source, so
  deserialisation has three outcomes: it raises, it builds a record (\<open>Decoded\<close>), or it
  builds an object one of whose fields holds a value of another type than its
  annotation (\<open>IllTyped\<close>, an object that the typed records cannot express).
\<close>

datatype 'a decoded = Decoded 'a | IllTyped

subsection \<open>Mod\<close>

definition Mod_to_dict :: "Mod \<Rightarrow> pyval" where
  "Mod_to_dict m = JDict
     [(''name'', JStr (Mod.name m)),
      (''filename'', JStr (filename m)),
      (''path'', JStr (path m)),
      (''size'', JInt (size m)),
      (''enabled'', JBool (enabled m))]"

definition Mod_fields :: "string list" where
  "Mod_fields = [''name'', ''filename'', ''path'', ''size'', ''enabled'']"

definition Mod_required :: "string list" where
  "Mod_required = [''name'', ''filename'', ''path'', ''size'']"

text \<open>
  \<open>Mod(**data)\<close>: a \<open>TypeError\<close> when \<open>data\<close> is no mapping, names a keyword that is
  no field, or misses a field without default; \<open>enabled\<close> defaults to \<open>True\<close>.
\<close>

definition Mod_from_dict :: "pyval \<Rightarrow> exn + Mod decoded" where
  "Mod_from_dict data =
     (case data of
        JDict kv \<Rightarrow>
          if \<not> list_all (\<lambda>k. k \<in> set Mod_fields) (map fst kv)
          then Inl (Raise TypeError ''Mod.__init__() got an unexpected keyword argument'')
          else if \<not> list_all (\<lambda>k. k \<in> set (map fst kv)) Mod_required
          then Inl (Raise TypeError ''Mod.__init__() missing required positional arguments'')
          else
            (case (map_of kv ''name'', map_of kv ''filename'', map_of kv ''path'',
                   map_of kv ''size'',
                   (case map_of kv ''enabled'' of None \<Rightarrow> JBool True | Some v \<Rightarrow> v)) of
               (Some (JStr n), Some (JStr f), Some (JStr p), Some (JInt s), JBool e) \<Rightarrow>
                 Inr (Decoded \<lparr>Mod.name = n, filename = f, path = p, size = s, enabled = e\<rparr>)
             | _ \<Rightarrow> Inr IllTyped)
      | _ \<Rightarrow> Inl (Raise TypeError ''argument after ** must be a mapping''))"

subsection \<open>Instance\<close>

definition Instance_to_dict :: "Instance \<Rightarrow> pyval" where
  "Instance_to_dict i = JDict
     [(''name'', JStr (Instance.name i)),
      (''mods'', JList (map Mod_to_dict (mods i))),
      (''created'', JStr (created i))]"

text \<open>
  The list comprehension \<open>[Mod.from_dict(mod) for mod in ...]\<close>: the first element
  that raises ends it; an ill-typed element does not.
\<close>

fun from_dict_each :: "pyval list \<Rightarrow> exn + Mod list decoded" where
  "from_dict_each [] = Inr (Decoded [])"
| "from_dict_each (v # vs) =
     (case Mod_from_dict v of
        Inl e \<Rightarrow> Inl e
      | Inr r \<Rightarrow>
          (case from_dict_each vs of
             Inl e \<Rightarrow> Inl e
           | Inr rs \<Rightarrow>
               (case (r, rs) of
                  (Decoded m, Decoded ms) \<Rightarrow> Inr (Decoded (m # ms))
                | _ \<Rightarrow> Inr IllTyped)))"

text \<open>
  What iterating \<open>data.get('mods', [])\<close> yields: the elements of a list, the keys
  of a dict, the characters of a string; anything else is not iterable.
\<close>

fun py_iter :: "pyval \<Rightarrow> exn + pyval list" where
  "py_iter (JList vs) = Inr vs"
| "py_iter (JDict kv) = Inr (map (\<lambda>(k, v). JStr k) kv)"
| "py_iter (JStr s) = Inr (map (\<lambda>c. JStr [c]) s)"
| "py_iter v = Inl (Raise TypeError ''object is not iterable'')"

definition Instance_from_dict :: "pyval \<Rightarrow> exn + Instance decoded" where
  "Instance_from_dict data =
     (case data of
        JDict kv \<Rightarrow>
          (case map_of kv ''name'' of
             None \<Rightarrow> Inl (Raise KeyError ([CHR 0x27] @ ''name'' @ [CHR 0x27]))
           | Some n \<Rightarrow>
               let c = (case map_of kv ''created'' of None \<Rightarrow> JStr [] | Some v \<Rightarrow> v);
                   ms = (case map_of kv ''mods'' of None \<Rightarrow> JList [] | Some v \<Rightarrow> v)
               in (case py_iter ms of
                     Inl e \<Rightarrow> Inl e
                   | Inr vs \<Rightarrow>
                       (case from_dict_each vs of
                          Inl e \<Rightarrow> Inl e
                        | Inr r \<Rightarrow>
                            (case (n, c, r) of
                               (JStr n', JStr c', Decoded ms') \<Rightarrow>
                                 Inr (Decoded \<lparr>Instance.name = n', mods = ms', created = c'\<rparr>)
                             | _ \<Rightarrow> Inr IllTyped))))
      | _ \<Rightarrow> Inl (Raise TypeError ''object is not subscriptable''))"

text \<open>\<open>add_mod\<close> returns its flag and the instance as the call leaves it.\<close>

definition add_mod :: "Instance \<Rightarrow> Mod \<Rightarrow> bool \<times> Instance" where
  "add_mod i m =
     (if list_ex (\<lambda>existing. filename existing = filename m) (mods i)
      then (False, i)
      else (True, i\<lparr>mods := mods i @ [m]\<rparr>))"

definition remove_mod :: "Instance \<Rightarrow> string \<Rightarrow> Instance" where
  "remove_mod i fn = i\<lparr>mods := filter (\<lambda>m. filename m \<noteq> fn) (mods i)\<rparr>"


subsection \<open>AppState\<close>

definition AppState_to_dict :: "AppState \<Rightarrow> pyval" where
  "AppState_to_dict s = JDict
     [(''active_instance'', (case active_instance s of None \<Rightarrow> JNull | Some a \<Rightarrow> JStr a)),
      (''steam_path'', (case steam_path s of None \<Rightarrow> JNull | Some a \<Rightarrow> JStr a))]"

definition AppState_fields :: "string list" where
  "AppState_fields = [''active_instance'', ''steam_path'']"

text \<open>\<open>AppState()\<close>: both fields default to \<open>None\<close>.\<close>

definition AppState_default :: AppState where
  "AppState_default = \<lparr>active_instance = None, steam_path = None\<rparr>"

fun optional_str :: "pyval option \<Rightarrow> string option decoded" where
  "optional_str None = Decoded None"
| "optional_str (Some JNull) = Decoded None"
| "optional_str (Some (JStr s)) = Decoded (Some s)"
| "optional_str (Some v) = IllTyped"

definition AppState_from_dict :: "pyval \<Rightarrow> exn + AppState decoded" where
  "AppState_from_dict data =
     (case data of
        JDict kv \<Rightarrow>
          if \<not> list_all (\<lambda>k. k \<in> set AppState_fields) (map fst kv)
          then Inl (Raise TypeError ''AppState.__init__() got an unexpected keyword argument'')
          else
            (case (optional_str (map_of kv ''active_instance''),
                   optional_str (map_of kv ''steam_path'')) of
               (Decoded a, Decoded s) \<Rightarrow> Inr (Decoded \<lparr>active_instance = a, steam_path = s\<rparr>)
             | _ \<Rightarrow> Inr IllTyped)
      | _ \<Rightarrow> Inl (Raise TypeError ''argument after ** must be a mapping''))"

section \<open>Python string operations\<close>

text \<open>\<open>str.lower\<close> on the ASCII letters; other bytes are kept.\<close>

definition lower_char :: "char \<Rightarrow> char" where
  "lower_char c =
     (let n = (of_char c :: nat) in if 65 \<le> n \<and> n \<le> 90 then char_of (n + 32) else c)"

definition lower :: "string \<Rightarrow> string" where
  "lower s = map lower_char s"

definition startswith :: "string \<Rightarrow> string \<Rightarrow> bool" where
  "startswith s pre = (take (length pre) s = pre)"




section \<open>Conflict detection (mod\_manager.py)\<close>












section \<open>Paths and the filesystem\<close>

text \<open>
  A \<open>pathlib.Path\<close> is the list of its name components below the root; the
  process runs with the root as its working directory.  \<open>Path(s)\<close> splits \<open>s\<close> at
  the separator and drops empty and \<open>.\<close> components, as \<open>pathlib\<close> does; a
  component \<open>..\<close> is a name like any other.
\<close>

type_synonym path = "string list"

fun split_on :: "char \<Rightarrow> string \<Rightarrow> string list" where
  "split_on sep [] = [[]]"
| "split_on sep (c # cs) =
     (if c = sep then [] # split_on sep cs
      else (case split_on sep cs of
              [] \<Rightarrow> [[c]]
            | part # parts \<Rightarrow> (c # part) # parts))"

definition Path :: "string \<Rightarrow> path" where
  "Path s = filter (\<lambda>part. part \<noteq> [] \<and> part \<noteq> ''.'') (split_on (CHR ''/'') s)"

text \<open>\<open>p / s\<close>: an absolute right operand replaces the left one.\<close>

definition joinpath :: "path \<Rightarrow> string \<Rightarrow> path" where
  "joinpath p s = (if startswith s ''/'' then Path s else p @ Path s)"

text \<open>\<open>str(p)\<close>, \<open>p.parent\<close>, \<open>p.name\<close>, \<open>p.suffix\<close> and \<open>p.stem\<close>.\<close>

definition str_path :: "path \<Rightarrow> string" where
  "str_path p = (if p = [] then ''/'' else concat (map (\<lambda>part. CHR ''/'' # part) p))"

definition parent :: "path \<Rightarrow> path" where
  "parent p = butlast p"

definition name_of :: "path \<Rightarrow> string" where
  "name_of p = (if p = [] then [] else last p)"

text \<open>\<open>s.rfind('.')\<close>: the index of the last dot, if there is one.\<close>

definition rfind_dot :: "string \<Rightarrow> nat option" where
  "rfind_dot s =
     (if CHR ''.'' \<in> set s
      then Some (length s - 1 - length (takeWhile (\<lambda>c. c \<noteq> CHR ''.'') (rev s)))
      else None)"

definition suffix :: "path \<Rightarrow> string" where
  "suffix p =
     (case rfind_dot (name_of p) of
        Some i \<Rightarrow> if 0 < i \<and> i < length (name_of p) - 1 then drop i (name_of p) else []
      | None \<Rightarrow> [])"

definition stem :: "path \<Rightarrow> string" where
  "stem p =
     (case rfind_dot (name_of p) of
        Some i \<Rightarrow> if 0 < i \<and> i < length (name_of p) - 1 then take i (name_of p) else name_of p
      | None \<Rightarrow> name_of p)"

text \<open>
  The filesystem is a table from paths to nodes, in the order in which a directory
  listing yields them; a lookup takes the first entry of a path.  A regular file is
  what the program can observe of it: its size in bytes and the value that
  \<open>json.load\<close> returns for its content (\<open>None\<close> when \<open>json.load\<close> raises).  A symbolic
  link holds its target.  The entries of a directory are the paths one component
  longer; a directory that is reached through a symbolic link has its entries under
  the link's target only.  There are no permissions: an operation fails only for
  the shape of the tree.
\<close>

datatype node = Dir | File nat "pyval option" | Symlink path

type_synonym fs = "(path \<times> node) list"

record world =
  files :: fs
  stdout :: "string list"

type_synonym 'a io = "world \<Rightarrow> (exn + 'a) \<times> world"

definition node_at :: "fs \<Rightarrow> path \<Rightarrow> node option" where
  "node_at t p = (if p = [] then Some Dir else map_of t p)"

text \<open>\<open>os.stat\<close>: follows symbolic links, a bounded number of them.\<close>

fun follow :: "nat \<Rightarrow> fs \<Rightarrow> path \<Rightarrow> node option" where
  "follow 0 t p = None"
| "follow (Suc n) t p =
     (case node_at t p of
        None \<Rightarrow> None
      | Some (Symlink target) \<Rightarrow> follow n t target
      | Some nd \<Rightarrow> Some nd)"

definition max_links :: nat where
  "max_links = 40"

definition stat :: "fs \<Rightarrow> path \<Rightarrow> node option" where
  "stat t p = follow (Suc max_links) t p"

definition exists :: "fs \<Rightarrow> path \<Rightarrow> bool" where
  "exists t p = (stat t p \<noteq> None)"

definition is_dir :: "fs \<Rightarrow> path \<Rightarrow> bool" where
  "is_dir t p = (stat t p = Some Dir)"

definition is_symlink :: "fs \<Rightarrow> path \<Rightarrow> bool" where
  "is_symlink t p = (case node_at t p of Some (Symlink target) \<Rightarrow> True | _ \<Rightarrow> False)"

definition lexists :: "fs \<Rightarrow> path \<Rightarrow> bool" where
  "lexists t p = (node_at t p \<noteq> None)"

definition print :: "string \<Rightarrow> world \<Rightarrow> world" where
  "print line w = w\<lparr>stdout := stdout w @ [line]\<rparr>"

definition os_error :: "exn_class \<Rightarrow> path \<Rightarrow> exn" where
  "os_error c p = Raise c (''[Errno] '' @ str_path p)"

text \<open>The entries of a directory, and \<open>Path.iterdir\<close>.\<close>

definition entries :: "fs \<Rightarrow> path \<Rightarrow> path list" where
  "entries t d = filter (\<lambda>k. k \<noteq> [] \<and> butlast k = d) (map fst t)"

definition iterdir :: "fs \<Rightarrow> path \<Rightarrow> exn + path list" where
  "iterdir t d =
     (case stat t d of
        None \<Rightarrow> Inl (os_error FileNotFoundError d)
      | Some Dir \<Rightarrow> Inr (entries t d)
      | Some nd \<Rightarrow> Inl (os_error NotADirectoryError d))"



text \<open>Why a new entry cannot be made at \<open>p\<close>, if it cannot.\<close>

definition create_error :: "fs \<Rightarrow> path \<Rightarrow> exn option" where
  "create_error t p =
     (if lexists t p then Some (os_error FileExistsError p)
      else if \<not> exists t (parent p) then Some (os_error FileNotFoundError p)
      else if \<not> is_dir t (parent p) then Some (os_error NotADirectoryError p)
      else None)"


definition os_mkdir :: "path \<Rightarrow> unit io" where
  "os_mkdir p w =
     (case create_error (files w) p of
        Some e \<Rightarrow> (Inl e, w)
      | None \<Rightarrow> (Inr (), w\<lparr>files := files w @ [(p, Dir)]\<rparr>))"

text \<open>\<open>Path.mkdir(exist_ok=True)\<close> and \<open>Path.mkdir(parents=True, exist_ok=True)\<close>.\<close>

definition mkdir_exist_ok :: "path \<Rightarrow> unit io" where
  "mkdir_exist_ok p w =
     (case os_mkdir p w of
        (Inr u, w') \<Rightarrow> (Inr (), w')
      | (Inl e, w') \<Rightarrow>
          if exn_class_of e = FileNotFoundError then (Inl e, w')
          else if \<not> is_dir (files w') p then (Inl e, w')
          else (Inr (), w'))"

function mkdir_parents :: "path \<Rightarrow> unit io" where
  "mkdir_parents p w =
     (case os_mkdir p w of
        (Inr u, w') \<Rightarrow> (Inr (), w')
      | (Inl e, w') \<Rightarrow>
          if exn_class_of e = FileNotFoundError then
            (if p = [] then (Inl e, w')
             else (case mkdir_parents (parent p) w' of
                     (Inl e', w'') \<Rightarrow> (Inl e', w'')
                   | (Inr u, w'') \<Rightarrow> mkdir_exist_ok p w''))
          else if \<not> is_dir (files w') p then (Inl e, w')
          else (Inr (), w'))"
  by pat_completeness auto
termination
  by (relation "measure (\<lambda>(p, w). length p)") (auto simp: parent_def)

text \<open>\<open>shutil.rmtree(p)\<close>: refuses a symbolic link; removes \<open>p\<close> and all below it.\<close>

definition rmtree :: "path \<Rightarrow> unit io" where
  "rmtree p w =
     (if is_symlink (files w) p then (Inl (Raise OSError ''Cannot call rmtree on a symbolic link''), w)
      else (case node_at (files w) p of
              None \<Rightarrow> (Inl (os_error FileNotFoundError p), w)
            | Some Dir \<Rightarrow> (Inr (), w\<lparr>files := filter (\<lambda>(k, nd). take (length p) k \<noteq> p) (files w)\<rparr>)
            | Some nd \<Rightarrow> (Inl (os_error NotADirectoryError p), w)))"

text \<open>
  Where a write through \<open>p\<close> ends: at \<open>p\<close>, or at the end of the chain of symbolic
  links that starts there.
\<close>

fun write_target :: "nat \<Rightarrow> fs \<Rightarrow> path \<Rightarrow> path option" where
  "write_target 0 t p = None"
| "write_target (Suc n) t p =
     (case node_at t p of
        Some (Symlink target) \<Rightarrow> write_target n t target
      | _ \<Rightarrow> Some p)"

definition put_entry :: "path \<Rightarrow> node \<Rightarrow> fs \<Rightarrow> fs" where
  "put_entry p nd t =
     (if map_of t p = None then t @ [(p, nd)]
      else map (\<lambda>(k, old). if k = p then (k, nd) else (k, old)) t)"

text \<open>Opening \<open>p\<close> for writing and storing a regular file there.\<close>

definition write_file :: "path \<Rightarrow> node \<Rightarrow> unit io" where
  "write_file p nd w =
     (case write_target (Suc max_links) (files w) p of
        None \<Rightarrow> (Inl (Raise OSError ''Too many levels of symbolic links''), w)
      | Some q \<Rightarrow>
          (case node_at (files w) q of
             Some Dir \<Rightarrow> (Inl (os_error IsADirectoryError q), w)
           | Some old \<Rightarrow> (Inr (), w\<lparr>files := put_entry q nd (files w)\<rparr>)
           | None \<Rightarrow>
               if \<not> exists (files w) (parent q) then (Inl (os_error FileNotFoundError q), w)
               else if \<not> is_dir (files w) (parent q) then (Inl (os_error NotADirectoryError q), w)
               else (Inr (), w\<lparr>files := put_entry q nd (files w)\<rparr>)))"

text \<open>\<open>open(p, 'r')\<close> followed by \<open>json.load\<close>.\<close>

definition read_json :: "path \<Rightarrow> pyval io" where
  "read_json p w =
     (case stat (files w) p of
        None \<Rightarrow> (Inl (os_error FileNotFoundError p), w)
      | Some Dir \<Rightarrow> (Inl (os_error IsADirectoryError p), w)
      | Some (File sz None) \<Rightarrow> (Inl (Raise JSONDecodeError ''Expecting value''), w)
      | Some (File sz (Some v)) \<Rightarrow> (Inr v, w)
      | Some (Symlink target) \<Rightarrow> (Inl (Raise OSError ''Too many levels of symbolic links''), w))"

text \<open>\<open>str(n)\<close> for a natural number.\<close>

definition digit :: "nat \<Rightarrow> char" where
  "digit d = char_of (48 + d)"

function str_nat :: "nat \<Rightarrow> string" where
  "str_nat n = (if n < 10 then [digit n] else str_nat (n div 10) @ [digit (n mod 10)])"
  by pat_completeness auto
termination
  by (relation "measure id") auto

section \<open>Persistence (models.py, DataManager)\<close>

record DataManager =
  data_dir :: path
  mods_dir :: path
  instances_dir :: path
  state_file :: path

definition SYMLINK_PREFIX :: string where
  "SYMLINK_PREFIX = ''ronmgr_''"

definition ensure_dirs :: "DataManager \<Rightarrow> unit io" where
  "ensure_dirs dm w =
     (case mkdir_parents (data_dir dm) w of
        (Inl e, w1) \<Rightarrow> (Inl e, w1)
      | (Inr u, w1) \<Rightarrow>
          (case mkdir_exist_ok (mods_dir dm) w1 of
             (Inl e, w2) \<Rightarrow> (Inl e, w2)
           | (Inr u, w2) \<Rightarrow> mkdir_exist_ok (instances_dir dm) w2))"

definition DataManager_init :: "path \<Rightarrow> DataManager io" where
  "DataManager_init d w =
     (let dm = \<lparr>data_dir = d, mods_dir = joinpath d ''mods'',
                instances_dir = joinpath d ''instances'',
                state_file = joinpath d ''state.json''\<rparr>
      in case ensure_dirs dm w of
           (Inl e, w') \<Rightarrow> (Inl e, w')
         | (Inr u, w') \<Rightarrow> (Inr dm, w'))"

text \<open>
  \<open>load_state\<close>.  The body of the \<open>try\<close> comes first; \<open>except Exception\<close> prints and
  falls through to the default state.
\<close>

definition load_state_try :: "DataManager \<Rightarrow> AppState decoded io" where
  "load_state_try dm w =
     (case read_json (state_file dm) w of
        (Inl e, w') \<Rightarrow> (Inl e, w')
      | (Inr data, w') \<Rightarrow>
          (case AppState_from_dict data of
             Inl e \<Rightarrow> (Inl e, w')
           | Inr s \<Rightarrow> (Inr s, w')))"

definition load_state :: "DataManager \<Rightarrow> AppState decoded io" where
  "load_state dm w =
     (if exists (files w) (state_file dm)
      then (case load_state_try dm w of
              (Inr s, w') \<Rightarrow> (Inr s, w')
            | (Inl e, w') \<Rightarrow>
                (Inr (Decoded AppState_default), print (''Error loading state: '' @ str_exn e) w'))
      else (Inr (Decoded AppState_default), w))"

text \<open>\<open>load_instance\<close>: \<open>None\<close> when the document is missing or cannot be loaded.\<close>

definition instance_file_of :: "DataManager \<Rightarrow> string \<Rightarrow> path" where
  "instance_file_of dm nm = joinpath (joinpath (instances_dir dm) nm) ''instance.json''"

definition load_instance_try :: "DataManager \<Rightarrow> string \<Rightarrow> Instance decoded io" where
  "load_instance_try dm nm w =
     (case read_json (instance_file_of dm nm) w of
        (Inl e, w') \<Rightarrow> (Inl e, w')
      | (Inr data, w') \<Rightarrow>
          (case Instance_from_dict data of
             Inl e \<Rightarrow> (Inl e, w')
           | Inr i \<Rightarrow> (Inr i, w')))"

definition load_instance :: "DataManager \<Rightarrow> string \<Rightarrow> Instance decoded option io" where
  "load_instance dm nm w =
     (if \<not> exists (files w) (instance_file_of dm nm) then (Inr None, w)
      else (case load_instance_try dm nm w of
              (Inr i, w') \<Rightarrow> (Inr (Some i), w')
            | (Inl e, w') \<Rightarrow>
                (Inr None, print (''Error loading instance '' @ nm @ '': '' @ str_exn e) w')))"

definition delete_instance :: "DataManager \<Rightarrow> string \<Rightarrow> unit io" where
  "delete_instance dm nm w =
     (let instance_dir = joinpath (instances_dir dm) nm
      in if exists (files w) instance_dir then rmtree instance_dir w else (Inr (), w))"

text \<open>\<open>list_instances\<close>.\<close>

definition list_instances :: "DataManager \<Rightarrow> string list io" where
  "list_instances dm w =
     (if \<not> exists (files w) (instances_dir dm) then (Inr [], w)
      else (case iterdir (files w) (instances_dir dm) of
              Inl e \<Rightarrow> (Inl e, w)
            | Inr items \<Rightarrow>
                (Inr (sort (map name_of
                        (filter (\<lambda>item. is_dir (files w) item
                                   \<and> exists (files w) (joinpath item ''instance.json''))
                           items))), w)))"

text \<open>\<open>shutil.copy2(src, dst)\<close> for a destination that is no directory.\<close>

definition copy2 :: "path \<Rightarrow> path \<Rightarrow> unit io" where
  "copy2 src dst w =
     (case stat (files w) src of
        None \<Rightarrow> (Inl (os_error FileNotFoundError src), w)
      | Some Dir \<Rightarrow> (Inl (os_error IsADirectoryError src), w)
      | Some (File sz j) \<Rightarrow> write_file dst (File sz j) w
      | Some (Symlink target) \<Rightarrow> (Inl (Raise OSError ''Too many levels of symbolic links''), w))"

text \<open>\<open>st_size\<close> of what \<open>os.stat\<close> found; only that of a regular file is ever read.\<close>

definition st_size :: "node \<Rightarrow> nat" where
  "st_size nd = (case nd of File sz j \<Rightarrow> sz | _ \<Rightarrow> 0)"

text \<open>\<open>import_mod\<close>: \<open>None\<close> when nothing is imported.\<close>

definition import_mod :: "DataManager \<Rightarrow> path \<Rightarrow> Mod option io" where
  "import_mod dm pak_file w =
     (if \<not> exists (files w) pak_file \<or> lower (suffix pak_file) \<noteq> ''.pak'' then (Inr None, w)
      else
        let dest = joinpath (mods_dir dm) (name_of pak_file)
        in if exists (files w) dest then (Inr None, w)
           else (case copy2 pak_file dest w of
                   (Inl e, w') \<Rightarrow> (Inl e, w')
                 | (Inr u, w') \<Rightarrow>
                     (case stat (files w') dest of
                        None \<Rightarrow> (Inl (os_error FileNotFoundError dest), w')
                      | Some nd \<Rightarrow>
                          (Inr (Some \<lparr>Mod.name = stem pak_file, filename = name_of pak_file,
                                       path = str_path dest, size = int (st_size nd),
                                       enabled = True\<rparr>), w'))))"

text \<open>
  The extraction of an archive is done by code outside this program: \<open>tempfile\<close>,
  \<open>zipfile\<close> and the \<open>7z\<close> and \<open>unrar\<close> executables.  They are parameters:
  \<open>mkdtemp\<close> returns the new directory, \<open>zip_extractall archive dir\<close> unpacks, and
  \<open>run argv\<close> is \<open>subprocess.run\<close>, which returns the exit status and the error output
  and raises \<open>FileNotFoundError\<close> when the executable is not installed.
\<close>

record tools =
  mkdtemp :: "path io"
  zip_extractall :: "path \<Rightarrow> path \<Rightarrow> unit io"
  run :: "string list \<Rightarrow> (int \<times> string) io"

definition endswith :: "string \<Rightarrow> string \<Rightarrow> bool" where
  "endswith s suf = (length suf \<le> length s \<and> drop (length s - length suf) s = suf)"

text \<open>\<open>temp_path.rglob('*.pak')\<close>: every entry below \<open>temp_path\<close> whose name ends so.\<close>

definition rglob_pak :: "fs \<Rightarrow> path \<Rightarrow> path list" where
  "rglob_pak t d =
     filter (\<lambda>k. length d < length k \<and> take (length d) k = d \<and> endswith (last k) ''.pak'')
       (map fst t)"

definition extract_archive_try :: "tools \<Rightarrow> path \<Rightarrow> path list io" where
  "extract_archive_try tls archive_path w =
     (case mkdtemp tls w of
        (Inl e, w1) \<Rightarrow> (Inl e, w1)
      | (Inr temp_path, w1) \<Rightarrow>
          (let sfx = lower (suffix archive_path);
               unpacked =
                 (if sfx = ''.zip'' then zip_extractall tls archive_path temp_path w1
                  else if sfx = ''.7z'' then
                    (case run tls [''7z'', ''x'', str_path archive_path, ''-o'' @ str_path temp_path] w1 of
                       (Inl e, w2) \<Rightarrow> (Inl e, w2)
                     | (Inr (returncode, err), w2) \<Rightarrow>
                         if returncode \<noteq> 0
                         then (Inl (Raise PlainException (''7z extraction failed: '' @ err)), w2)
                         else (Inr (), w2))
                  else if sfx = ''.rar'' then
                    (case run tls [''unrar'', ''x'', str_path archive_path, str_path temp_path] w1 of
                       (Inl e, w2) \<Rightarrow> (Inl e, w2)
                     | (Inr (returncode, err), w2) \<Rightarrow>
                         if returncode \<noteq> 0
                         then (Inl (Raise PlainException (''unrar extraction failed: '' @ err)), w2)
                         else (Inr (), w2))
                  else (Inr (), w1))
           in case unpacked of
                (Inl e, w2) \<Rightarrow> (Inl e, w2)
              | (Inr u, w2) \<Rightarrow> (Inr (rglob_pak (files w2) temp_path), w2)))"

definition extract_archive :: "tools \<Rightarrow> path \<Rightarrow> path list io" where
  "extract_archive tls archive_path w =
     (case extract_archive_try tls archive_path w of
        (Inr paks, w') \<Rightarrow> (Inr paks, w')
      | (Inl e, w') \<Rightarrow>
          if exn_class_of e = FileNotFoundError
          then (Inl (Raise PlainException (''Extraction tool not found: '' @ str_exn e)), w')
          else (Inl e, w'))"

text \<open>The loop of \<open>import_archive\<close> over the extracted files.\<close>

fun import_each :: "DataManager \<Rightarrow> path list \<Rightarrow> Mod list \<Rightarrow> Mod list io" where
  "import_each dm [] imported_mods w = (Inr imported_mods, w)"
| "import_each dm (pak_file # rest) imported_mods w =
     (case import_mod dm pak_file w of
        (Inl e, w') \<Rightarrow> (Inl e, w')
      | (Inr None, w') \<Rightarrow> import_each dm rest imported_mods w'
      | (Inr (Some m), w') \<Rightarrow> import_each dm rest (imported_mods @ [m]) w')"

definition import_archive_try :: "tools \<Rightarrow> DataManager \<Rightarrow> path \<Rightarrow> (Mod list \<times> string option) io" where
  "import_archive_try tls dm archive_path w =
     (case extract_archive tls archive_path w of
        (Inl e, w1) \<Rightarrow> (Inl e, w1)
      | (Inr extracted_paks, w1) \<Rightarrow>
          if extracted_paks = [] then (Inr ([], Some ''No .pak files found in archive''), w1)
          else (case import_each dm extracted_paks [] w1 of
                  (Inl e, w2) \<Rightarrow> (Inl e, w2)
                | (Inr imported_mods, w2) \<Rightarrow> (Inr (imported_mods, None), w2)))"

definition import_archive :: "tools \<Rightarrow> DataManager \<Rightarrow> path \<Rightarrow> (Mod list \<times> string option) io" where
  "import_archive tls dm archive_path w =
     (if \<not> exists (files w) archive_path then (Inr ([], Some ''Archive file not found''), w)
      else if lower (suffix archive_path) \<notin> set [''.zip'', ''.7z'', ''.rar'']
      then (Inr ([], Some (''Unsupported archive format: '' @ lower (suffix archive_path))), w)
      else (case import_archive_try tls dm archive_path w of
              (Inr r, w') \<Rightarrow> (Inr r, w')
            | (Inl e, w') \<Rightarrow> (Inr ([], Some (str_exn e)), w')))"


text \<open>Where \<open>import_mod\<close> puts a package file: under its own name in the library.\<close>

definition dest_of :: "DataManager \<Rightarrow> path \<Rightarrow> path" where
  "dest_of dm pak_file = joinpath (mods_dir dm) (name_of pak_file)"

section \<open>Game path resolution (mod\_manager.py)\<close>

record ModManager =
  game_mods_dir :: "path option"
  error_message :: "string option"

text \<open>The texts of the diagnoses; \<open>nl\<close> is the line feed, the other two are UTF-8.\<close>

definition nl :: string where
  "nl = [CHR 0x0A]"

definition arrow :: string where
  "arrow = [CHR 0xE2, CHR 0x86, CHR 0x92]"

definition bullet :: string where
  "bullet = [CHR 0xE2, CHR 0x80, CHR 0xA2]"

definition steam_not_found_message :: string where
  "steam_not_found_message =
     ''Steam installation not detected (native or Flatpak).'' @ nl @ nl
     @ ''Expected locations:'' @ nl
     @ ''  '' @ bullet @ '' ~/.steam/steam/steamapps (native)'' @ nl
     @ ''  '' @ bullet @ '' ~/.var/app/com.valvesoftware.Steam/.steam/steam/steamapps (Flatpak)''"

definition game_files_missing_message :: string where
  "game_files_missing_message =
     ''Ready or Not is registered in Steam but game files are missing.'' @ nl @ nl
     @ ''Please verify the game files in Steam:'' @ nl
     @ ''Right-click Ready or Not '' @ arrow @ '' Properties '' @ arrow
     @ '' Installed Files '' @ arrow @ '' Verify integrity''"

definition prefix_missing_message :: string where
  "prefix_missing_message =
     ''Ready or Not is installed, but the Proton prefix does not exist.'' @ nl @ nl
     @ ''Please launch the game once in Steam to generate the Proton prefix.''"

definition prefix_incomplete_message :: string where
  "prefix_incomplete_message =
     ''Proton prefix exists but appears incomplete.'' @ nl @ nl
     @ ''The AppData/Local directory structure is missing.'' @ nl
     @ ''Please launch the game once to complete prefix initialization.''"

definition not_installed_message :: "nat \<Rightarrow> string" where
  "not_installed_message n =
     ''Ready or Not is not installed in any detected Steam library.'' @ nl @ nl
     @ ''Checked '' @ str_nat n @ '' Steam librar'' @ (if n = 1 then ''y'' else ''ies'') @ ''.''
     @ nl @ nl
     @ ''Please install Ready or Not from Steam.''"

text \<open>The places that \<open>_validate_and_create_mod_directory\<close> looks at under a root.\<close>

definition manifest_of :: "path \<Rightarrow> path" where
  "manifest_of steamapps = joinpath steamapps ''appmanifest_1144200.acf''"

definition game_dir_of :: "path \<Rightarrow> path" where
  "game_dir_of steamapps = joinpath (joinpath steamapps ''common'') ''Ready Or Not''"

definition compatdata_pfx_of :: "path \<Rightarrow> path" where
  "compatdata_pfx_of steamapps =
     joinpath (joinpath (joinpath steamapps ''compatdata'') ''1144200'') ''pfx''"

definition appdata_local_of :: "path \<Rightarrow> path" where
  "appdata_local_of steamapps =
     joinpath (joinpath (joinpath (joinpath (joinpath (compatdata_pfx_of steamapps)
       ''drive_c'') ''users'') ''steamuser'') ''AppData'') ''Local''"

definition mods_path_of :: "path \<Rightarrow> path" where
  "mods_path_of steamapps =
     joinpath (joinpath (joinpath (appdata_local_of steamapps) ''ReadyOrNot'') ''Saved'') ''Paks''"

text \<open>\<open>_validate_and_create_mod_directory\<close> returns the pair \<open>(path, error_message)\<close>.\<close>

definition validate_and_create_mod_directory :: "path \<Rightarrow> (path option \<times> string option) io" where
  "validate_and_create_mod_directory steamapps w =
     (if \<not> exists (files w) (manifest_of steamapps) then (Inr (None, None), w)
      else if \<not> exists (files w) (game_dir_of steamapps)
      then (Inr (None, Some game_files_missing_message), w)
      else if \<not> exists (files w) (compatdata_pfx_of steamapps)
      then (Inr (None, Some prefix_missing_message), w)
      else if exists (files w) (mods_path_of steamapps)
      then (Inr (Some (mods_path_of steamapps), None), w)
      else if \<not> exists (files w) (appdata_local_of steamapps)
      then (Inr (None, Some prefix_incomplete_message), w)
      else (case mkdir_parents (mods_path_of steamapps) w of
              (Inr u, w') \<Rightarrow>
                (Inr (Some (mods_path_of steamapps), None),
                 print (''Created mod directory: '' @ str_path (mods_path_of steamapps)) w')
            | (Inl e, w') \<Rightarrow>
                (Inr (None, Some (''Failed to create mod directory: '' @ str_exn e)), w')))"

text \<open>
  The loop of \<open>_detect_game_path\<close> over the libraries.  It yields \<open>Some\<close> of the
  returned path and the manager as the \<open>return\<close> inside the loop leaves it, and \<open>None\<close>
  when the loop runs to its end.  An \<open>error\<close> counts when it is a non-empty string.
\<close>

fun detect_loop ::
  "path list \<Rightarrow> ModManager \<Rightarrow> (path option \<times> ModManager) option io" where
  "detect_loop [] mm w = (Inr None, w)"
| "detect_loop (steamapps # rest) mm w =
     (case validate_and_create_mod_directory steamapps w of
        (Inl e, w') \<Rightarrow> (Inl e, w')
      | (Inr (Some p, error), w') \<Rightarrow>
          (Inr (Some (Some p, mm\<lparr>game_mods_dir := Some p, error_message := None\<rparr>)), w')
      | (Inr (None, error), w') \<Rightarrow>
          if error \<noteq> None \<and> error \<noteq> Some []
          then (Inr (Some (None, mm\<lparr>error_message := error\<rparr>)), w')
          else detect_loop rest mm w')"

text \<open>
  \<open>_detect_game_path\<close>, for the list of libraries that \<open>_find_steam_libraries\<close>
  returned.
\<close>

definition detect_game_path :: "path list \<Rightarrow> ModManager \<Rightarrow> (path option \<times> ModManager) io" where
  "detect_game_path libraries mm w =
     (if libraries = [] then (Inr (None, mm\<lparr>error_message := Some steam_not_found_message\<rparr>), w)
      else (case detect_loop libraries mm w of
              (Inl e, w') \<Rightarrow> (Inl e, w')
            | (Inr (Some r), w') \<Rightarrow> (Inr r, w')
            | (Inr None, w') \<Rightarrow>
                (Inr (None, mm\<lparr>error_message := Some (not_installed_message (length libraries))\<rparr>),
                 w')))"

section \<open>Activation (mod\_manager.py)\<close>









definition verify_mods :: "Instance \<Rightarrow> fs \<Rightarrow> string list" where
  "verify_mods i t = map filename (filter (\<lambda>m. \<not> exists t (Path (path m))) (mods i))"

section \<open>The main window (main.py)\<close>

text \<open>
  What the window shows is kept as the list of its effects on the widgets: message
  boxes, log lines, and the refreshing of the two lists.
\<close>

datatype ui_event =
    MessageBox string string string
  | Log string string
  | RefreshInstances "string list"
  | ModListLoad "Instance option"

record MainWindow =
  data_manager :: DataManager
  mod_manager :: ModManager
  state :: AppState
  current_instance :: "Instance option"
  ui :: "ui_event list"

definition load_instances :: "MainWindow \<Rightarrow> MainWindow io" where
  "load_instances mw w =
     (case list_instances (data_manager mw) w of
        (Inl e, w') \<Rightarrow> (Inl e, w')
      | (Inr instances, w') \<Rightarrow>
          (Inr (mw\<lparr>ui := ui mw @ [RefreshInstances instances,
                     Log (''Loaded '' @ str_nat (length instances) @ '' instance(s)'') ''info'']\<rparr>),
           w'))"

text \<open>\<open>MainWindow.delete_instance\<close>, the slot behind the delete button.\<close>

definition window_delete_instance :: "MainWindow \<Rightarrow> string \<Rightarrow> MainWindow io" where
  "window_delete_instance mw nm w =
     (if active_instance (state mw) = Some nm
      then (Inr (mw\<lparr>ui := ui mw @ [MessageBox ''warning'' ''Cannot Delete''
                   ''Cannot delete the active instance. Please deactivate it first.'']\<rparr>), w)
      else (case delete_instance (data_manager mw) nm w of
              (Inl e, w1) \<Rightarrow> (Inl e, w1)
            | (Inr u, w1) \<Rightarrow>
                (case load_instances mw w1 of
                   (Inl e, w2) \<Rightarrow> (Inl e, w2)
                 | (Inr mw2, w2) \<Rightarrow>
                     (Inr (mw2\<lparr>current_instance := None,
                               ui := ui mw2 @ [ModListLoad None,
                                     Log (''Deleted instance: '' @ nm) ''info'']\<rparr>), w2))))"

section \<open>Managed symlinks\<close>

text \<open>
  The entries that \<open>get_managed_symlinks\<close> picks from the listing of the game
  directory \<open>g\<close>: symbolic links directly in \<open>g\<close> whose name carries the prefix.
\<close>

definition managed :: "path \<Rightarrow> fs \<Rightarrow> path \<Rightarrow> bool" where
  "managed g t k =
     (k \<noteq> [] \<and> butlast k = g \<and> is_symlink t k \<and> startswith (name_of k) SYMLINK_PREFIX)"


text \<open>The filesystem without the managed links of \<open>g\<close>.\<close>

definition cleared :: "path \<Rightarrow> fs \<Rightarrow> fs" where
  "cleared g t = filter (\<lambda>(k, nd). \<not> managed g t k) t"


section \<open>Example states\<close>

text \<open>
  Three library roots: \<open>a\<close> without the game, \<open>b\<close> with the manifest only, \<open>c\<close> with
  the manifest and the game files but no prefix.
\<close>

definition three_roots :: world where
  "three_roots = \<lparr>files =
      [([''a''], Dir),
       ([''b''], Dir),
       ([''b'', ''appmanifest_1144200.acf''], File 10 None),
       ([''c''], Dir),
       ([''c'', ''appmanifest_1144200.acf''], File 10 None),
       ([''c'', ''common''], Dir),
       ([''c'', ''common'', ''Ready Or Not''], Dir)], stdout = []\<rparr>"

definition fresh_manager :: ModManager where
  "fresh_manager = \<lparr>game_mods_dir = None, error_message = None\<rparr>"

text \<open>
  A data directory \<open>/d\<close>.  Its state document names \<open>main\<close> as the active instance.
  Of its instances, \<open>main\<close> has a document, the document of \<open>broken\<close> is an empty
  file, \<open>Zeta\<close> has a document, \<open>empty\<close> has none, and \<open>notes.txt\<close> is a file.
\<close>

definition data_manager0 :: DataManager where
  "data_manager0 = \<lparr>data_dir = [''d''], mods_dir = [''d'', ''mods''],
     instances_dir = [''d'', ''instances''], state_file = [''d'', ''state.json'']\<rparr>"

definition main_instance :: Instance where
  "main_instance = \<lparr>Instance.name = ''main'', mods = [], created = ''2024-01-01T00:00:00''\<rparr>"

definition data_world :: world where
  "data_world = \<lparr>files =
     [([''d''], Dir),
      ([''d'', ''mods''], Dir),
      ([''d'', ''instances''], Dir),
      ([''d'', ''state.json''], File 60
         (Some (JDict [(''active_instance'', JStr ''main''), (''steam_path'', JNull)]))),
      ([''d'', ''instances'', ''main''], Dir),
      ([''d'', ''instances'', ''main'', ''instance.json''], File 70
         (Some (Instance_to_dict main_instance))),
      ([''d'', ''instances'', ''broken''], Dir),
      ([''d'', ''instances'', ''broken'', ''instance.json''], File 0 None),
      ([''d'', ''instances'', ''Zeta''], Dir),
      ([''d'', ''instances'', ''Zeta'', ''instance.json''], File 70
         (Some (Instance_to_dict (main_instance\<lparr>Instance.name := ''Zeta''\<rparr>)))),
      ([''d'', ''instances'', ''empty''], Dir),
      ([''d'', ''instances'', ''notes.txt''], File 5 None)],
     stdout = []\<rparr>"

text \<open>The same directory without a state document, with a garbled one, with a list in it.\<close>

definition no_state_world :: world where
  "no_state_world = \<lparr>files = [([''d''], Dir)], stdout = []\<rparr>"



definition window0 :: MainWindow where
  "window0 = \<lparr>data_manager = data_manager0, mod_manager = fresh_manager,
     state = \<lparr>active_instance = Some ''main'', steam_path = None\<rparr>,
     current_instance = Some main_instance, ui = []\<rparr>"










text \<open>
  An archive \<open>/dl/pack.zip\<close> with two packages, one of them in a subdirectory, and
  stand-ins for the extraction tools: every call of \<open>mkdtemp\<close> gives \<open>/tmp/x\<close>,
  unpacking writes the two packages there, and no executable is installed.
\<close>

definition unpack_tools :: tools where
  "unpack_tools =
     \<lparr>mkdtemp = (\<lambda>w. (Inr [''tmp'', ''x''], w\<lparr>files := files w @ [([''tmp'', ''x''], Dir)]\<rparr>)),
      zip_extractall = (\<lambda>archive dir w. (Inr (),
         w\<lparr>files := files w @ [(dir @ [''m.pak''], File 3 None), (dir @ [''sub''], Dir),
                                 (dir @ [''sub'', ''n.pak''], File 4 None)]\<rparr>)),
      run = (\<lambda>argv w. (Inl (Raise FileNotFoundError ''No such file or directory''), w))\<rparr>"

definition archive_world :: world where
  "archive_world = \<lparr>files =
     [([''d''], Dir),
      ([''d'', ''mods''], Dir),
      ([''d'', ''mods'', ''m.pak''], File 9 None),
      ([''dl''], Dir),
      ([''dl'', ''pack.zip''], File 50 None),
      ([''dl'', ''m.pak''], File 3 None),
      ([''tmp''], Dir)],
     stdout = []\<rparr>"

section \<open>Evaluation on concrete states\<close>

lemma follow_numeral:
  "follow (numeral k) t p =
     (case node_at t p of
        None \<Rightarrow> None
      | Some (Symlink target) \<Rightarrow> follow (pred_numeral k) t target
      | Some nd \<Rightarrow> Some nd)"
  by (simp add: numeral_eq_Suc)

lemma write_target_numeral:
  "write_target (numeral k) t p =
     (case node_at t p of
        Some (Symlink target) \<Rightarrow> write_target (pred_numeral k) t target
      | _ \<Rightarrow> Some p)"
  by (simp add: numeral_eq_Suc)

lemmas path_eval = joinpath_def Path_def startswith_def name_of_def parent_def

lemmas fs_eval = exists_def is_dir_def stat_def max_links_def follow_numeral
  write_target_numeral node_at_def
  is_symlink_def lexists_def entries_def iterdir_def

section \<open>Properties of the entity model\<close>

lemma from_dict_each_to_dict:
  "from_dict_each (map Mod_to_dict ms) = Inr (Decoded ms)"
proof (induction ms)
  case Nil
  show ?case by simp
next
  case (Cons m ms)
  have "Mod_from_dict (Mod_to_dict m) = Inr (Decoded m)"
    by (simp add: Mod_from_dict_def Mod_to_dict_def Mod_fields_def Mod_required_def)
  with Cons show ?case by simp
qed

text \<open>
  C4.  Adding a mod whose filename is already in the instance's list returns
  \<open>False\<close> and leaves the instance as it was; so after any first \<open>add_mod\<close> of a mod, a
  second \<open>add_mod\<close> of a mod with that filename returns \<open>False\<close> and the list keeps its
  length (and its content).
\<close>

theorem add_mod_idempotent_on_filename:
  "(filename m \<in> filename ` set (mods i) \<longrightarrow> add_mod i m = (False, i))
   \<and> (filename m' = filename m \<longrightarrow>
        add_mod (snd (add_mod i m)) m' = (False, snd (add_mod i m))
        \<and> length (mods (snd (add_mod (snd (add_mod i m)) m'))) = length (mods (snd (add_mod i m))))"
  by (auto simp: add_mod_def list_ex_iff)

theorem add_mod_idempotent_on_filename_witness:
  "add_mod \<lparr>Instance.name = ''p'', mods = [\<lparr>Mod.name = ''a'', filename = ''a.pak'',
        path = ''/l/a.pak'', size = 1, enabled = True\<rparr>], created = ''''\<rparr>
     \<lparr>Mod.name = ''x'', filename = ''a.pak'', path = ''/other/a.pak'', size = 2, enabled = False\<rparr>
   = (False, \<lparr>Instance.name = ''p'', mods = [\<lparr>Mod.name = ''a'', filename = ''a.pak'',
        path = ''/l/a.pak'', size = 1, enabled = True\<rparr>], created = ''''\<rparr>)
   \<and> length (mods (snd (add_mod (snd (add_mod \<lparr>Instance.name = ''q'', mods = [], created = ''''\<rparr>
        \<lparr>Mod.name = ''a'', filename = ''a.pak'', path = ''/l/a.pak'', size = 1, enabled = True\<rparr>))
        \<lparr>Mod.name = ''a'', filename = ''a.pak'', path = ''/l/a.pak'', size = 1, enabled = True\<rparr>))) = 1"
  using add_mod_idempotent_on_filename
    [of "\<lparr>Mod.name = ''x'', filename = ''a.pak'', path = ''/other/a.pak'', size = 2, enabled = False\<rparr>"
        "\<lparr>Instance.name = ''p'', mods = [\<lparr>Mod.name = ''a'', filename = ''a.pak'',
           path = ''/l/a.pak'', size = 1, enabled = True\<rparr>], created = ''''\<rparr>"]
    add_mod_idempotent_on_filename
    [of "\<lparr>Mod.name = ''a'', filename = ''a.pak'', path = ''/l/a.pak'', size = 1, enabled = True\<rparr>"
        "\<lparr>Instance.name = ''q'', mods = [], created = ''''\<rparr>"
        "\<lparr>Mod.name = ''a'', filename = ''a.pak'', path = ''/l/a.pak'', size = 1, enabled = True\<rparr>"]
  by (simp add: add_mod_def)

lemma Mod_from_dict_to_dict: "Mod_from_dict (Mod_to_dict m) = Inr (Decoded m)"
  by (simp add: Mod_from_dict_def Mod_to_dict_def Mod_fields_def Mod_required_def)

lemma Instance_from_dict_to_dict: "Instance_from_dict (Instance_to_dict i) = Inr (Decoded i)"
  by (simp add: Instance_from_dict_def Instance_to_dict_def from_dict_each_to_dict)

lemma AppState_from_dict_to_dict: "AppState_from_dict (AppState_to_dict s) = Inr (Decoded s)"
  by (cases "active_instance s"; cases "steam_path s")
     (simp_all add: AppState_from_dict_def AppState_to_dict_def AppState_fields_def)

section \<open>Properties of conflict detection\<close>









section \<open>Properties of game path resolution\<close>

lemma game_files_missing_message_nonempty: "game_files_missing_message \<noteq> []"
  by (simp add: game_files_missing_message_def)

lemma detect_loop_skip:
  "\<not> exists (files w) (manifest_of s) \<Longrightarrow> detect_loop (s # rest) mm w = detect_loop rest mm w"
  by (simp add: validate_and_create_mod_directory_def)

lemma detect_loop_skip_all:
  "\<forall>s \<in> set before. \<not> exists (files w) (manifest_of s)
   \<Longrightarrow> detect_loop (before @ rest) mm w = detect_loop rest mm w"
  by (induction before) (simp_all add: detect_loop_skip del: detect_loop.simps)

lemma detect_loop_game_files_missing:
  "exists (files w) (manifest_of root) \<Longrightarrow> \<not> exists (files w) (game_dir_of root)
   \<Longrightarrow> detect_loop (root # later) mm w
       = (Inr (Some (None, mm\<lparr>error_message := Some game_files_missing_message\<rparr>)), w)"
  by (simp add: validate_and_create_mod_directory_def game_files_missing_message_nonempty)

text \<open>
  C1.  Let the roots \<open>before\<close> have no manifest, and let \<open>root\<close> have the manifest
  but no game directory.  Then resolution over \<open>before @ root # later\<close> returns no
  path and sets the message of missing game files, whatever the roots \<open>later\<close> are
  and whatever they hold; the filesystem and the output are as before, so nothing
  was created under any root.  And a root without the manifest is passed over: the
  search goes on with the next root.
\<close>

theorem game_files_missing_ends_search:
  "((\<forall>s \<in> set before. \<not> exists (files w) (manifest_of s))
      \<and> exists (files w) (manifest_of root) \<and> \<not> exists (files w) (game_dir_of root)
    \<longrightarrow> detect_game_path (before @ root # later) mm w
        = (Inr (None, mm\<lparr>error_message := Some game_files_missing_message\<rparr>), w))
   \<and> (\<not> exists (files w) (manifest_of s)
    \<longrightarrow> detect_loop (s # rest) mm w = detect_loop rest mm w)"
  by (simp add: detect_game_path_def detect_loop_skip_all detect_loop_game_files_missing
      detect_loop_skip del: detect_loop.simps)

theorem game_files_missing_ends_search_witness:
  "detect_game_path [[''a''], [''b''], [''c'']] fresh_manager three_roots
     = (Inr (None, fresh_manager\<lparr>error_message := Some game_files_missing_message\<rparr>), three_roots)
   \<and> detect_loop [[''a''], [''c'']] fresh_manager three_roots
     = detect_loop [[''c'']] fresh_manager three_roots"
proof -
  have a: "\<forall>s \<in> set [[''a'']]. \<not> exists (files three_roots) (manifest_of s)"
    by code_simp
  have b: "exists (files three_roots) (manifest_of [''b''])"
    by code_simp
  have c: "\<not> exists (files three_roots) (game_dir_of [''b''])"
    by code_simp
  have d: "\<not> exists (files three_roots) (manifest_of [''a''])"
    by code_simp
  have e: "detect_game_path ([[''a'']] @ [''b''] # [[''c'']]) fresh_manager three_roots
     = (Inr (None, fresh_manager\<lparr>error_message := Some game_files_missing_message\<rparr>), three_roots)"
    using a b c game_files_missing_ends_search [where before = "[[''a'']]" and w = three_roots
        and root = "[''b'']" and later = "[[''c'']]" and mm = fresh_manager] by blast
  have f: "detect_loop ([''a''] # [[''c'']]) fresh_manager three_roots
     = detect_loop [[''c'']] fresh_manager three_roots"
    using d game_files_missing_ends_search [where w = three_roots and mm = fresh_manager
        and s = "[''a'']" and rest = "[[''c'']]"] by blast
  from e f show ?thesis by (simp del: detect_loop.simps)
qed

section \<open>Properties of persistence\<close>









text \<open>
  C8, as the code has it.  Without an instances directory the list is empty.
  Otherwise \<open>list_instances\<close> returns, sorted by the order of strings (character by
  character, by character code, so upper case before lower case), exactly the names
  of the entries of the instances directory that are directories and in which an
  entry \<open>instance.json\<close> exists.  The document is not opened: whether it can be
  loaded plays no part.
\<close>

theorem list_instances_sorted_names:
  "(\<not> exists (files w) (instances_dir dm) \<longrightarrow> list_instances dm w = (Inr [], w))
   \<and> (is_dir (files w) (instances_dir dm) \<longrightarrow>
        (\<exists>names. list_instances dm w = (Inr names, w) \<and> sorted names
           \<and> set names = name_of ` {item \<in> set (entries (files w) (instances_dir dm)).
                 is_dir (files w) item \<and> exists (files w) (joinpath item ''instance.json'')}))"
  by (auto simp: list_instances_def iterdir_def is_dir_def exists_def)

theorem list_instances_sorted_names_witness:
  "is_dir (files data_world) (instances_dir data_manager0)
   \<and> (\<exists>names. list_instances data_manager0 data_world = (Inr names, data_world) \<and> sorted names
        \<and> set names = name_of ` {item \<in> set (entries (files data_world) (instances_dir data_manager0)).
              is_dir (files data_world) item
              \<and> exists (files data_world) (joinpath item ''instance.json'')})
   \<and> list_instances data_manager0 no_state_world = (Inr [], no_state_world)"
proof -
  have d: "is_dir (files data_world) (instances_dir data_manager0)"
    by (simp add: data_world_def data_manager0_def fs_eval)
  have n: "\<not> exists (files no_state_world) (instances_dir data_manager0)"
    by (simp add: no_state_world_def data_manager0_def fs_eval)
  from d n show ?thesis
    using list_instances_sorted_names [where dm = data_manager0 and w = data_world]
      list_instances_sorted_names [where dm = data_manager0 and w = no_state_world]
    by blast
qed

text \<open>
  The claim C8 speaks of directories that contain a valid instance document.  The
  directory \<open>broken\<close> holds an \<open>instance.json\<close> that is an empty file: it is listed,
  and \<open>load_instance\<close> returns \<open>None\<close> for it.
\<close>

theorem list_instances_lists_invalid_document:
  "fst (list_instances data_manager0 data_world) = Inr [''Zeta'', ''broken'', ''main'']
   \<and> fst (load_instance data_manager0 ''broken'' data_world) = Inr None"
proof
  show "fst (list_instances data_manager0 data_world) = Inr [''Zeta'', ''broken'', ''main'']"
    by (simp add: list_instances_def data_world_def data_manager0_def fs_eval path_eval)
  show "fst (load_instance data_manager0 ''broken'' data_world) = Inr None"
    by (simp add: load_instance_def load_instance_try_def read_json_def instance_file_of_def
        data_world_def data_manager0_def fs_eval path_eval)
qed

text \<open>
  C10.  For every \<open>Mod\<close>, \<open>Instance\<close> and \<open>AppState\<close>, \<open>from_dict\<close> of \<open>to_dict\<close> builds
  the value it started from: every field, each mod's \<open>enabled\<close> flag and the order of
  the instance's mods.  So a document that \<open>json.load\<close> decodes to what \<open>to_dict\<close>
  produced, which is what \<open>json.dump\<close> wrote, is loaded as the entity that was
  saved, by \<open>load_instance\<close> as by \<open>load_state\<close>, and nothing is printed.
\<close>

theorem from_dict_to_dict_identity:
  "Mod_from_dict (Mod_to_dict m) = Inr (Decoded m)
   \<and> Instance_from_dict (Instance_to_dict i) = Inr (Decoded i)
   \<and> AppState_from_dict (AppState_to_dict s) = Inr (Decoded s)
   \<and> (stat (files w) (instance_file_of dm nm) = Some (File sz (Some (Instance_to_dict i)))
        \<longrightarrow> load_instance dm nm w = (Inr (Some (Decoded i)), w))
   \<and> (stat (files w) (state_file dm) = Some (File sz (Some (AppState_to_dict s)))
        \<longrightarrow> load_state dm w = (Inr (Decoded s), w))"
proof (intro conjI impI)
  show "Mod_from_dict (Mod_to_dict m) = Inr (Decoded m)"
    by (rule Mod_from_dict_to_dict)
  show "Instance_from_dict (Instance_to_dict i) = Inr (Decoded i)"
    by (rule Instance_from_dict_to_dict)
  show "AppState_from_dict (AppState_to_dict s) = Inr (Decoded s)"
    by (rule AppState_from_dict_to_dict)
  show "load_instance dm nm w = (Inr (Some (Decoded i)), w)"
    if "stat (files w) (instance_file_of dm nm) = Some (File sz (Some (Instance_to_dict i)))"
    using that
    by (simp add: load_instance_def load_instance_try_def read_json_def exists_def
        Instance_from_dict_to_dict)
  show "load_state dm w = (Inr (Decoded s), w)"
    if "stat (files w) (state_file dm) = Some (File sz (Some (AppState_to_dict s)))"
    using that
    by (simp add: load_state_def load_state_try_def read_json_def exists_def
        AppState_from_dict_to_dict)
qed

theorem from_dict_to_dict_identity_witness:
  "load_instance data_manager0 ''main'' data_world = (Inr (Some (Decoded main_instance)), data_world)
   \<and> load_state data_manager0 data_world
       = (Inr (Decoded \<lparr>active_instance = Some ''main'', steam_path = None\<rparr>), data_world)"
proof -
  have i: "stat (files data_world) (instance_file_of data_manager0 ''main'')
      = Some (File 70 (Some (Instance_to_dict main_instance)))"
    by (simp add: instance_file_of_def data_world_def data_manager0_def fs_eval path_eval)
  have s: "stat (files data_world) (state_file data_manager0)
      = Some (File 60 (Some (AppState_to_dict \<lparr>active_instance = Some ''main'', steam_path = None\<rparr>)))"
    by (simp add: AppState_to_dict_def data_world_def data_manager0_def fs_eval)
  from i s show ?thesis
    using from_dict_to_dict_identity [where w = data_world and dm = data_manager0
        and nm = "''main''" and sz = 70 and i = main_instance]
      from_dict_to_dict_identity [where w = data_world and dm = data_manager0
        and sz = 60 and s = "\<lparr>active_instance = Some ''main'', steam_path = None\<rparr>"]
    by blast
qed

section \<open>Properties of the main window\<close>

text \<open>
  C5.  When the name is that of the active instance of the state, the slot only
  shows a warning: it returns with the filesystem as it was, so the directory of the
  instance, its document and the state document are untouched, and the state, the
  current instance and the data manager of the window are the same.
\<close>

theorem active_instance_is_not_deleted:
  "active_instance (state mw) = Some nm \<longrightarrow>
     (\<exists>mw'. window_delete_instance mw nm w = (Inr mw', w)
        \<and> state mw' = state mw \<and> current_instance mw' = current_instance mw
        \<and> data_manager mw' = data_manager mw)"
  by (simp add: window_delete_instance_def)

theorem active_instance_is_not_deleted_witness:
  "active_instance (state window0) = Some ''main''
   \<and> (\<exists>mw'. window_delete_instance window0 ''main'' data_world = (Inr mw', data_world)
        \<and> state mw' = state window0 \<and> current_instance mw' = current_instance window0
        \<and> data_manager mw' = data_manager window0)
   \<and> exists (files data_world) (instance_file_of data_manager0 ''main'')"
proof -
  have a: "active_instance (state window0) = Some ''main''"
    by (simp add: window0_def)
  have e: "exists (files data_world) (instance_file_of data_manager0 ''main'')"
    by (simp add: instance_file_of_def data_world_def data_manager0_def fs_eval path_eval)
  from a e show ?thesis
    using active_instance_is_not_deleted [where mw = window0 and nm = "''main''"
        and w = data_world]
    by blast
qed

section \<open>Properties of activation\<close>















lemma cleared_no_managed: "(\<And>k. \<not> managed g t k) \<Longrightarrow> cleared g t = t"
  by (simp add: cleared_def)










lemma node_at_append_old: "node_at t k = Some x \<Longrightarrow> node_at (t @ new) k = Some x"
  by (auto simp: node_at_def map_add_def split: if_splits)














section \<open>Properties of the import\<close>

lemma follow_append_fresh:
  "follow n t p = Some x \<Longrightarrow> follow n (t @ new) p = Some x"
proof (induction n arbitrary: p)
  case 0
  then show ?case by simp
next
  case (Suc n)
  from Suc.prems obtain y where y: "node_at t p = Some y"
    by (auto split: option.splits)
  then have y': "node_at (t @ new) p = Some y"
    by (rule node_at_append_old)
  show ?case
  proof (cases y)
    case (Symlink target)
    with Suc.prems y have "follow n t target = Some x" by simp
    then have "follow n (t @ new) target = Some x" by (rule Suc.IH)
    with y' Symlink show ?thesis by simp
  next
    case Dir
    with Suc.prems y have "x = Dir" by simp
    with y' Dir show ?thesis by simp
  next
    case (File a b)
    with Suc.prems y have "x = File a b" by simp
    with y' File show ?thesis by simp
  qed
qed

lemma exists_append_fresh: "exists t p \<Longrightarrow> exists (t @ new) p"
  unfolding exists_def stat_def using follow_append_fresh by fastforce

lemma write_target_free:
  "follow n t p = None \<Longrightarrow> write_target n t p = Some q \<Longrightarrow> node_at t q = None"
proof (induction n arbitrary: p)
  case 0
  then show ?case by simp
next
  case (Suc n)
  show ?case
  proof (cases "node_at t p")
    case None
    with Suc.prems show ?thesis by simp
  next
    case (Some y)
    with Suc show ?thesis by (cases y) (auto)
  qed
qed

lemma follow_written:
  "write_target n t p = Some q \<Longrightarrow> node_at t q = None
   \<Longrightarrow> follow n (t @ [(q, File sz j)]) p = Some (File sz j)"
proof (induction n arbitrary: p)
  case 0
  then show ?case by simp
next
  case (Suc n)
  from Suc.prems(2) have q: "q \<noteq> []" "map_of t q = None"
    by (auto simp: node_at_def split: if_splits)
  show ?case
  proof (cases "node_at t p")
    case None
    with Suc.prems have "p = q" by simp
    with q show ?thesis by (simp add: node_at_def map_add_def)
  next
    case (Some y)
    then have y': "node_at (t @ [(q, File sz j)]) p = Some y"
      by (rule node_at_append_old)
    show ?thesis
    proof (cases y)
      case (Symlink target)
      with Suc.prems Some have "write_target n t target = Some q" by simp
      then have "follow n (t @ [(q, File sz j)]) target = Some (File sz j)"
        using Suc.prems(2) by (rule Suc.IH)
      with y' Symlink show ?thesis by simp
    next
      case Dir
      with Suc.prems Some show ?thesis by simp
    next
      case (File a b)
      with Suc.prems Some show ?thesis by simp
    qed
  qed
qed

lemma write_file_new:
  assumes "\<not> exists (files w) dst" and "write_file dst (File sz j) w = (Inr u, w')"
  shows "\<exists>q. files w' = files w @ [(q, File sz j)] \<and> stdout w' = stdout w
           \<and> exists (files w') dst"
proof -
  from assms(2) obtain q where q: "write_target (Suc max_links) (files w) dst = Some q"
    by (auto simp: write_file_def split: option.splits)
  from assms(1) have "follow (Suc max_links) (files w) dst = None"
    by (simp add: exists_def stat_def)
  then have free: "node_at (files w) q = None"
    using q by (rule write_target_free)
  then have "map_of (files w) q = None"
    by (auto simp: node_at_def split: if_splits)
  with assms(2) q free have w': "w' = w\<lparr>files := files w @ [(q, File sz j)]\<rparr>"
    by (auto simp: write_file_def put_entry_def split: if_splits)
  have "follow (Suc max_links) (files w @ [(q, File sz j)]) dst = Some (File sz j)"
    using q free by (rule follow_written)
  with w' show ?thesis by (simp add: exists_def stat_def del: follow.simps)
qed

lemma import_mod_duplicate:
  "exists (files w) (dest_of dm pak_file) \<Longrightarrow> import_mod dm pak_file w = (Inr None, w)"
  by (simp add: import_mod_def dest_of_def)

lemma import_mod_effect:
  assumes "import_mod dm p w = (Inr r, w')"
  shows "(\<forall>x. exists (files w) x \<longrightarrow> exists (files w') x)
         \<and> (exists (files w) p \<and> lower (suffix p) = ''.pak'' \<longrightarrow> exists (files w') (dest_of dm p))"
proof (cases "\<not> exists (files w) p \<or> lower (suffix p) \<noteq> ''.pak'' \<or> exists (files w) (dest_of dm p)")
  case True
  with assms have "w' = w"
    by (auto simp: import_mod_def dest_of_def Let_def split: if_splits)
  with True show ?thesis by auto
next
  case False
  then have p: "exists (files w) p" "lower (suffix p) = ''.pak''"
    and d: "\<not> exists (files w) (dest_of dm p)" by auto
  from assms p d obtain u where c: "copy2 p (dest_of dm p) w = (Inr u, w')"
    by (auto simp: import_mod_def dest_of_def Let_def split: prod.splits sum.splits option.splits)
  then obtain sz j where "write_file (dest_of dm p) (File sz j) w = (Inr u, w')"
    by (auto simp: copy2_def split: option.splits node.splits)
  with d obtain q where q: "files w' = files w @ [(q, File sz j)]"
    "exists (files w') (dest_of dm p)"
    using write_file_new by blast
  then show ?thesis by (auto simp: exists_append_fresh)
qed

lemma import_each_effect:
  "import_each dm paks acc w = (Inr ms, w')
   \<Longrightarrow> (\<forall>x. exists (files w) x \<longrightarrow> exists (files w') x)
     \<and> (\<forall>p \<in> set paks. exists (files w) p \<and> lower (suffix p) = ''.pak''
           \<longrightarrow> exists (files w') (dest_of dm p))"
proof (induction paks arbitrary: acc w)
  case Nil
  then show ?case by simp
next
  case (Cons p paks)
  from Cons.prems obtain r w1 where r: "import_mod dm p w = (Inr r, w1)"
    by (auto split: prod.splits sum.splits)
  from Cons.prems r obtain acc' where rest: "import_each dm paks acc' w1 = (Inr ms, w')"
    by (cases r) auto
  note e1 = import_mod_effect [OF r] and e2 = Cons.IH [OF rest]
  show ?case
  proof (intro conjI allI ballI impI)
    fix x assume "exists (files w) x"
    with e1 e2 show "exists (files w') x" by blast
  next
    fix p' assume "p' \<in> set (p # paks)"
      and "exists (files w) p' \<and> lower (suffix p') = ''.pak''"
    with e1 e2 show "exists (files w') (dest_of dm p')" by auto
  qed
qed

lemma import_each_all_present:
  "\<forall>p \<in> set paks. exists (files w) p \<and> lower (suffix p) = ''.pak''
       \<longrightarrow> exists (files w) (dest_of dm p)
   \<Longrightarrow> import_each dm paks acc w = (Inr acc, w)"
proof (induction paks)
  case Nil
  show ?case by simp
next
  case (Cons p paks)
  then have "import_mod dm p w = (Inr None, w)"
    by (auto simp: import_mod_def dest_of_def)
  with Cons show ?case by simp
qed

lemma suffix_by_name: "name_of p = name_of p' \<Longrightarrow> suffix p = suffix p'"
  by (simp add: suffix_def split: option.splits)

lemma import_archive_no_error:
  assumes "import_archive tls dm a w = (Inr (ms, None), w1)"
    and "extract_archive tls a w = (Inr paks, wx)"
  shows "exists (files w) a \<and> lower (suffix a) \<in> set [''.zip'', ''.7z'', ''.rar'']
         \<and> paks \<noteq> [] \<and> import_each dm paks [] wx = (Inr ms, w1)"
proof -
  from assms(1) have a: "exists (files w) a"
    and s: "lower (suffix a) \<in> set [''.zip'', ''.7z'', ''.rar'']"
    by (auto simp: import_archive_def split: if_splits)
  with assms(1) have t: "import_archive_try tls dm a w = (Inr (ms, None), w1)"
    by (auto simp: import_archive_def split: if_splits prod.splits sum.splits)
  with assms(2) have "paks \<noteq> []" and "import_each dm paks [] wx = (Inr ms, w1)"
    by (auto simp: import_archive_try_def split: if_splits prod.splits sum.splits)
  with a s show ?thesis by simp
qed

lemma import_archive_all_present:
  assumes "exists (files w) a" and "lower (suffix a) \<in> set [''.zip'', ''.7z'', ''.rar'']"
    and "extract_archive tls a w = (Inr paks, w1)" and "paks \<noteq> []"
    and "\<forall>p \<in> set paks. exists (files w1) p \<and> lower (suffix p) = ''.pak''
           \<longrightarrow> exists (files w1) (dest_of dm p)"
  shows "import_archive tls dm a w = (Inr ([], None), w1)"
proof -
  from assms(5) have "import_each dm paks [] w1 = (Inr [], w1)"
    by (rule import_each_all_present)
  with assms(3,4) have "import_archive_try tls dm a w = (Inr ([], None), w1)"
    by (simp add: import_archive_try_def)
  with assms(1,2) show ?thesis
    by (simp add: import_archive_def)
qed

text \<open>
  C6.  When a file of the package's name exists in the library, \<open>import_mod\<close>
  returns \<open>None\<close> and leaves the filesystem as it is, the library file included.
  When the extraction of an archive yields package files whose names all exist in
  the library, \<open>import_archive\<close> returns no mod and no error, and the filesystem
  is as the extraction left it.  And a second import of an archive follows a first
  one that reported no error like this: if the first extraction yielded files that
  exist, and the second extraction yields files of the same names and removes
  nothing, then the second import returns no mod and no error.
\<close>

theorem duplicate_import_is_skipped:
  "(exists (files w) (joinpath (mods_dir dm) (name_of pak_file))
      \<longrightarrow> import_mod dm pak_file w = (Inr None, w))
   \<and> (exists (files w) a \<and> lower (suffix a) \<in> set [''.zip'', ''.7z'', ''.rar'']
        \<and> extract_archive tls a w = (Inr paks, w1) \<and> paks \<noteq> []
        \<and> (\<forall>p \<in> set paks. exists (files w1) (joinpath (mods_dir dm) (name_of p)))
      \<longrightarrow> import_archive tls dm a w = (Inr ([], None), w1))
   \<and> (import_archive tls dm a w = (Inr (ms, None), w1)
        \<and> extract_archive tls a w = (Inr paks, wx) \<and> (\<forall>p \<in> set paks. exists (files wx) p)
        \<and> exists (files w1) a
        \<and> extract_archive tls a w1 = (Inr paks2, wy)
        \<and> name_of ` set paks2 = name_of ` set paks
        \<and> (\<forall>x. exists (files w1) x \<longrightarrow> exists (files wy) x)
      \<longrightarrow> import_archive tls dm a w1 = (Inr ([], None), wy))"
proof (intro conjI impI; (elim conjE)?)
  assume "exists (files w) (joinpath (mods_dir dm) (name_of pak_file))"
  then show "import_mod dm pak_file w = (Inr None, w)"
    by (simp add: import_mod_def)
next
  assume "exists (files w) a" and "lower (suffix a) \<in> set [''.zip'', ''.7z'', ''.rar'']"
    and "extract_archive tls a w = (Inr paks, w1)" and "paks \<noteq> []"
    and "\<forall>p \<in> set paks. exists (files w1) (joinpath (mods_dir dm) (name_of p))"
  then show "import_archive tls dm a w = (Inr ([], None), w1)"
    by (intro import_archive_all_present) (auto simp: dest_of_def)
next
  assume first: "import_archive tls dm a w = (Inr (ms, None), w1)"
    and ex1: "extract_archive tls a w = (Inr paks, wx)"
    and there: "\<forall>p \<in> set paks. exists (files wx) p"
    and a1: "exists (files w1) a"
    and ex2: "extract_archive tls a w1 = (Inr paks2, wy)"
    and names: "name_of ` set paks2 = name_of ` set paks"
    and kept: "\<forall>x. exists (files w1) x \<longrightarrow> exists (files wy) x"
  from first ex1 have s: "lower (suffix a) \<in> set [''.zip'', ''.7z'', ''.rar'']"
    and ne: "paks \<noteq> []" and loop: "import_each dm paks [] wx = (Inr ms, w1)"
    using import_archive_no_error by blast+
  from ne names have ne2: "paks2 \<noteq> []" by auto
  have "exists (files wy) (dest_of dm p2)"
    if p2: "p2 \<in> set paks2" and pak: "lower (suffix p2) = ''.pak''" for p2
  proof -
    from p2 names obtain p where p: "p \<in> set paks" "name_of p = name_of p2"
      by (metis image_iff)
    then have "suffix p = suffix p2" by (intro suffix_by_name)
    with pak p there have "exists (files wx) p \<and> lower (suffix p) = ''.pak''" by simp
    with p(1) have "exists (files w1) (dest_of dm p)"
      using import_each_effect [OF loop] by blast
    with kept p(2) show ?thesis by (simp add: dest_of_def)
  qed
  then have "\<forall>p \<in> set paks2. exists (files wy) p \<and> lower (suffix p) = ''.pak''
           \<longrightarrow> exists (files wy) (dest_of dm p)"
    by blast
  with a1 s ex2 ne2 show "import_archive tls dm a w1 = (Inr ([], None), wy)"
    by (rule import_archive_all_present)
qed

lemmas import_eval = import_archive_def import_archive_try_def extract_archive_def
  extract_archive_try_def rglob_pak_def endswith_def import_mod_def copy2_def write_file_def
  put_entry_def suffix_def stem_def rfind_dot_def lower_def lower_char_def str_path_def
  st_size_def Let_def

theorem duplicate_import_is_skipped_witness:
  "import_mod data_manager0 [''dl'', ''m.pak''] archive_world = (Inr None, archive_world)
   \<and> (\<exists>m w1 wy. import_archive unpack_tools data_manager0 [''dl'', ''pack.zip''] archive_world
          = (Inr ([m], None), w1)
        \<and> filename m = ''n.pak''
        \<and> import_archive unpack_tools data_manager0 [''dl'', ''pack.zip''] w1
          = (Inr ([], None), wy))"
proof -
  let ?a = "[''dl'', ''pack.zip'']"
  let ?t0 = "files archive_world"
  let ?x = "[([''tmp'', ''x''], Dir), ([''tmp'', ''x'', ''m.pak''], File 3 None),
      ([''tmp'', ''x'', ''sub''], Dir), ([''tmp'', ''x'', ''sub'', ''n.pak''], File 4 None)]"
  let ?wx = "\<lparr>files = ?t0 @ ?x, stdout = []\<rparr>"
  let ?w1 = "\<lparr>files = ?t0 @ ?x @ [([''d'', ''mods'', ''n.pak''], File 4 None)], stdout = []\<rparr>"
  let ?wy = "\<lparr>files = files ?w1 @ ?x, stdout = []\<rparr>"
  let ?paks = "[[''tmp'', ''x'', ''m.pak''], [''tmp'', ''x'', ''sub'', ''n.pak'']]"
  let ?m = "\<lparr>Mod.name = ''n'', filename = ''n.pak'', path = ''/d/mods/n.pak'',
           size = 4, enabled = True\<rparr>"
  have dup: "exists (files archive_world) (joinpath (mods_dir data_manager0) (name_of [''dl'', ''m.pak'']))"
    by (simp add: archive_world_def data_manager0_def fs_eval path_eval)
  have one: "import_mod data_manager0 [''dl'', ''m.pak''] archive_world = (Inr None, archive_world)"
    using dup duplicate_import_is_skipped [where dm = data_manager0 and w = archive_world
        and pak_file = "[''dl'', ''m.pak'']"]
    by blast
  have ex1: "extract_archive unpack_tools ?a archive_world = (Inr ?paks, ?wx)"
    by (simp add: archive_world_def unpack_tools_def import_eval fs_eval path_eval)
  have first: "import_archive unpack_tools data_manager0 ?a archive_world = (Inr ([?m], None), ?w1)"
    by (simp add: archive_world_def unpack_tools_def data_manager0_def import_eval fs_eval
        path_eval)
  have there: "\<forall>p \<in> set ?paks. exists (files ?wx) p"
    by (simp add: archive_world_def fs_eval)
  have a1: "exists (files ?w1) ?a"
    by (simp add: archive_world_def fs_eval)
  have ex2: "extract_archive unpack_tools ?a ?w1 = (Inr (?paks @ ?paks), ?wy)"
    by (simp add: archive_world_def unpack_tools_def import_eval fs_eval path_eval)
  have names: "name_of ` set (?paks @ ?paks) = name_of ` set ?paks"
    by auto
  have kept: "\<forall>x. exists (files ?w1) x \<longrightarrow> exists (files ?wy) x"
  proof (intro allI impI)
    fix p
    assume "exists (files ?w1) p"
    then have "exists (files ?w1 @ ?x) p" by (rule exists_append_fresh)
    then show "exists (files ?wy) p" by simp
  qed
  have "import_archive unpack_tools data_manager0 ?a ?w1 = (Inr ([], None), ?wy)"
    using first ex1 there a1 ex2 names kept
      duplicate_import_is_skipped [where tls = unpack_tools and dm = data_manager0
        and a = ?a and w = archive_world and ms = "[?m]" and ?w1.0 = ?w1 and paks = ?paks
        and wx = ?wx and ?paks2.0 = "?paks @ ?paks" and wy = ?wy]
    by blast
  moreover have "import_archive unpack_tools data_manager0 ?a ?w1 = (Inr ([], None), ?wy)"
  proof -
    have sfx: "lower (suffix ?a) \<in> set [''.zip'', ''.7z'', ''.rar'']"
      by (simp add: import_eval path_eval)
    have present: "\<forall>p \<in> set (?paks @ ?paks).
        exists (files ?wy) (joinpath (mods_dir data_manager0) (name_of p))"
      by (simp add: archive_world_def data_manager0_def fs_eval path_eval)
    from a1 sfx ex2 present show ?thesis
      using duplicate_import_is_skipped [where tls = unpack_tools and dm = data_manager0
          and a = ?a and w = ?w1 and paks = "?paks @ ?paks" and ?w1.0 = ?wy]
      by blast
  qed
  ultimately show ?thesis
    using one first by (intro conjI exI [of _ ?m] exI [of _ ?w1] exI [of _ ?wy]) simp_all
qed

end
